theory Spec2Isabelle
  imports Main
begin

section \<open>Python values and the library functions the client relies on\<close>

text \<open>
  The client passes free-form, JSON-like values around.  A dictionary keeps its keys in
  insertion order (the order is visible through \<open>urlencode\<close>, \<open>json.dumps\<close> and
  \<open>list(d.keys())\<close>), so it is an association list with distinct keys.
\<close>

datatype pyval =
    PNone
  | PBool bool
  | PInt int
  | PStr string
  | PList "pyval list"
  | PDict "(string \<times> pyval) list"

type_synonym pydict = "(string \<times> pyval) list"

text \<open>\<open>d[k] = v\<close>: an existing key keeps its position, a new key goes to the end.\<close>

fun dict_set :: "(string \<times> 'v) list \<Rightarrow> string \<Rightarrow> 'v \<Rightarrow> (string \<times> 'v) list" where
  "dict_set [] k v = [(k, v)]"
| "dict_set ((k', v') # d) k v = (if k' = k then (k, v) # d else (k', v') # dict_set d k v)"

text \<open>Truthiness, as \<open>if x:\<close> and \<open>x or y\<close> test it.\<close>

fun truthy :: "pyval \<Rightarrow> bool" where
  "truthy PNone = False"
| "truthy (PBool b) = b"
| "truthy (PInt i) = (i \<noteq> 0)"
| "truthy (PStr s) = (s \<noteq> [])"
| "truthy (PList xs) = (xs \<noteq> [])"
| "truthy (PDict d) = (d \<noteq> [])"

text \<open>The exceptions of the two layers; every other exception class is \<open>OtherError\<close>.\<close>

datatype exn =
    SwaggerClientError string
  | CoolifyError string "pyval option"
  | OtherError string

datatype 'a result = Return 'a | Raise exn

subsection \<open>String methods\<close>

text \<open>\<open>s.replace(old, new)\<close>: non-overlapping occurrences, left to right.\<close>

function replace_ne :: "string \<Rightarrow> string \<Rightarrow> string \<Rightarrow> string" where
  "replace_ne [] old new = []"
| "replace_ne (c # cs) old new =
     (if old \<noteq> [] \<and> take (length old) (c # cs) = old
      then new @ replace_ne (drop (length old) (c # cs)) old new
      else c # replace_ne cs old new)"
  by pat_completeness auto
termination
  by (relation "measure (\<lambda>(s, old, new). length s)") (auto simp: neq_Nil_conv)

definition replace_py :: "string \<Rightarrow> string \<Rightarrow> string \<Rightarrow> string" where
  "replace_py s old new =
     (if old = [] then new @ concat (map (\<lambda>c. c # new) s) else replace_ne s old new)"

definition rstrip_py :: "string \<Rightarrow> char \<Rightarrow> string" where
  "rstrip_py s c = rev (dropWhile (\<lambda>x. x = c) (rev s))"

definition startswith :: "string \<Rightarrow> string \<Rightarrow> bool" where
  "startswith s p = (take (length p) s = p)"

fun join :: "string \<Rightarrow> string list \<Rightarrow> string" where
  "join sep [] = []"
| "join sep [x] = x"
| "join sep (x # y # ys) = x @ sep @ join sep (y # ys)"

fun split_py :: "string \<Rightarrow> char \<Rightarrow> string list" where
  "split_py [] sep = [[]]"
| "split_py (c # cs) sep =
     (if c = sep then [] # split_py cs sep
      else (case split_py cs sep of [] \<Rightarrow> [[c]] | w # ws \<Rightarrow> (c # w) # ws))"

definition upper_char :: "char \<Rightarrow> char" where
  "upper_char c =
     (case map_of (zip ''abcdefghijklmnopqrstuvwxyz'' ''ABCDEFGHIJKLMNOPQRSTUVWXYZ'') c of
        Some u \<Rightarrow> u | None \<Rightarrow> c)"

definition lower_char :: "char \<Rightarrow> char" where
  "lower_char c =
     (case map_of (zip ''ABCDEFGHIJKLMNOPQRSTUVWXYZ'' ''abcdefghijklmnopqrstuvwxyz'') c of
        Some l \<Rightarrow> l | None \<Rightarrow> c)"

definition upper :: "string \<Rightarrow> string" where
  "upper s = map upper_char s"

definition lower :: "string \<Rightarrow> string" where
  "lower s = map lower_char s"

text \<open>\<open>sub in s\<close> on strings.\<close>

fun contains :: "string \<Rightarrow> string \<Rightarrow> bool" where
  "contains sub [] = (sub = [])"
| "contains sub (c # cs) = (take (length sub) (c # cs) = sub \<or> contains sub cs)"

subsection \<open>The environment: library functions and the network\<close>

text \<open>
  What the HTTP library does with one request.  \<open>Delivered\<close> is a response object;
  \<open>HTTPError\<close> and \<open>URLError\<close> are the exceptions of \<open>urllib\<close>; \<open>Timeout\<close>,
  \<open>SSLError\<close>, \<open>ConnectionError\<close> and \<open>RequestException\<close> are those of \<open>requests\<close>,
  each standing for the first \<open>except\<close> clause that catches it; \<open>Crash\<close> is any
  exception neither transport function catches.
\<close>

datatype lib_outcome =
    Delivered int string "(string \<times> string) list"
  | HTTPError int "string option" "(string \<times> string) list option"
  | URLError string
  | Timeout
  | SSLError string
  | ConnectionError string
  | RequestException string
  | Crash string

record wire =
  w_method :: string
  w_url :: string
  w_headers :: pydict
  w_data :: "string option"

text \<open>
  The built-ins \<open>str\<close>, \<open>urllib.parse.urlencode\<close>, \<open>json.dumps\<close> and \<open>json.loads\<close>
  (\<open>None\<close> for \<open>JSONDecodeError\<close>), the module flag \<open>HAS_REQUESTS\<close>, and the network:
  \<open>network k w\<close> is what happens to request \<open>w\<close> when \<open>k\<close> requests were sent before it.
\<close>

record env =
  py_str :: "pyval \<Rightarrow> string"
  urlencode :: "pydict \<Rightarrow> string"
  json_dumps :: "pyval \<Rightarrow> string"
  json_loads :: "string \<Rightarrow> pyval option"
  HAS_REQUESTS :: bool
  network :: "nat \<Rightarrow> wire \<Rightarrow> lib_outcome"

datatype event = Sent wire | Slept nat

section \<open>The OpenAPI document and the operation index\<close>

record parameter =
  p_name :: string
  p_in :: "string option"

record media_type =
  mt_schema :: "pydict option"

record request_body =
  rb_content :: "(string \<times> media_type) list"

record operation =
  operationId :: "string option"
  o_parameters :: "parameter list option"
  requestBody :: "request_body option"

record path_item =
  pi_operations :: "(string \<times> operation) list"
  pi_parameters :: "parameter list option"

text \<open>
  \<open>paths\<close> is \<open>spec['paths']\<close>; \<open>document\<close> is the whole parsed document, which
  \<open>_resolve_ref\<close> walks.
\<close>

record openapi =
  paths :: "(string \<times> path_item) list"
  document :: pyval

record operation_info =
  oi_path :: string
  oi_method :: string
  oi_operation :: operation
  oi_parameters :: "parameter list"
  oi_request_body :: "request_body option"

record swagger_client =
  spec :: openapi
  base_url :: string
  auth_params :: pydict
  auth_headers :: pydict
  max_retries :: int
  retry_delay :: nat
  operations :: "(string \<times> operation_info) list"

definition get_operation_parameters :: "operation \<Rightarrow> path_item \<Rightarrow> parameter list" where
  "get_operation_parameters operation path_item =
     (let params = [];
          params = (case pi_parameters path_item of Some ps \<Rightarrow> params @ ps | None \<Rightarrow> params);
          params = (case o_parameters operation of Some ps \<Rightarrow> params @ ps | None \<Rightarrow> params)
      in params)"

definition HTTP_METHODS :: "string list" where
  "HTTP_METHODS = [''get'', ''post'', ''put'', ''patch'', ''delete'', ''options'', ''head'']"

text \<open>The inner loop of \<open>_build_operation_map\<close>, over the methods of one path.\<close>

fun index_methods ::
  "string \<Rightarrow> path_item \<Rightarrow> string list \<Rightarrow> (string \<times> operation_info) list
     \<Rightarrow> (string \<times> operation_info) list" where
  "index_methods path path_item [] ops = ops"
| "index_methods path path_item (method # methods) ops =
     (case map_of (pi_operations path_item) method of
        None \<Rightarrow> index_methods path path_item methods ops
      | Some operation \<Rightarrow>
          (case operationId operation of
             None \<Rightarrow> index_methods path path_item methods ops
           | Some operation_id \<Rightarrow>
               if operation_id \<noteq> [] then
                 index_methods path path_item methods
                   (dict_set ops operation_id
                      \<lparr>oi_path = path,
                       oi_method = upper method,
                       oi_operation = operation,
                       oi_parameters = get_operation_parameters operation path_item,
                       oi_request_body = requestBody operation\<rparr>)
               else index_methods path path_item methods ops))"

text \<open>The outer loop, over \<open>paths.items()\<close>.\<close>

fun index_paths ::
  "(string \<times> path_item) list \<Rightarrow> (string \<times> operation_info) list
     \<Rightarrow> (string \<times> operation_info) list" where
  "index_paths [] ops = ops"
| "index_paths ((path, path_item) # rest) ops =
     index_paths rest (index_methods path path_item HTTP_METHODS ops)"

definition build_operation_map :: "openapi \<Rightarrow> (string \<times> operation_info) list" where
  "build_operation_map sp = index_paths (paths sp) []"

text \<open>
  The constructor, with the base URL given (as the facade always gives it); the
  operation index is built once, here.
\<close>

definition SwaggerClient ::
  "openapi \<Rightarrow> string \<Rightarrow> pydict \<Rightarrow> pydict \<Rightarrow> int \<Rightarrow> nat \<Rightarrow> swagger_client" where
  "SwaggerClient sp url aparams aheaders retries delay =
     \<lparr>spec = sp, base_url = url, auth_params = aparams, auth_headers = aheaders,
      max_retries = retries, retry_delay = delay, operations = build_operation_map sp\<rparr>"

definition get_operation :: "swagger_client \<Rightarrow> string \<Rightarrow> operation_info result" where
  "get_operation self operation_id =
     (case map_of (operations self) operation_id of
        None \<Rightarrow>
          (let available = map fst (operations self)
           in Raise (SwaggerClientError
                (''Operation '' @ [CHR 0x27] @ operation_id @ [CHR 0x27] @ '' not found. ''
                 @ ''Available operations: '' @ join '', '' (take 10 available) @ ''...'')))
      | Some info \<Rightarrow> Return info)"

section \<open>The request builder\<close>

text \<open>
  The first loop of \<open>call_operation\<close>: every declared parameter in the path is looked up
  in the caller's map, under its name with hyphens turned into underscores and then under
  its own name; a hit replaces the placeholder.
\<close>

fun substitute_path :: "env \<Rightarrow> parameter list \<Rightarrow> pydict \<Rightarrow> string \<Rightarrow> string" where
  "substitute_path ev [] params path = path"
| "substitute_path ev (param # rest) params path =
     (if p_in param = Some ''path'' then
        (let param_name = p_name param;
             python_name = replace_py param_name ''-'' ''_''
         in case map_of params python_name of
              Some v \<Rightarrow>
                substitute_path ev rest params
                  (replace_py path (''{'' @ param_name @ ''}'') (py_str ev v))
            | None \<Rightarrow>
                (case map_of params param_name of
                   Some v \<Rightarrow>
                     substitute_path ev rest params
                       (replace_py path (''{'' @ param_name @ ''}'') (py_str ev v))
                 | None \<Rightarrow> substitute_path ev rest params path))
      else substitute_path ev rest params path)"

text \<open>The second loop: the query parameters, added to a copy of the auth parameters.\<close>

fun build_query :: "parameter list \<Rightarrow> pydict \<Rightarrow> pydict \<Rightarrow> pydict" where
  "build_query [] params query_params = query_params"
| "build_query (param # rest) params query_params =
     (if p_in param = Some ''query'' then
        (let param_name = p_name param;
             python_name = replace_py param_name ''-'' ''_''
         in case map_of params python_name of
              Some v \<Rightarrow>
                (if v \<noteq> PNone then build_query rest params (dict_set query_params param_name v)
                 else build_query rest params query_params)
            | None \<Rightarrow>
                (case map_of params param_name of
                   Some v \<Rightarrow>
                     (if v \<noteq> PNone
                      then build_query rest params (dict_set query_params param_name v)
                      else build_query rest params query_params)
                 | None \<Rightarrow> build_query rest params query_params))
      else build_query rest params query_params)"

text \<open>\<open>_resolve_ref\<close>: only pointers into the document itself are followed.\<close>

fun walk_ref :: "pyval \<Rightarrow> string list \<Rightarrow> pyval option" where
  "walk_ref current [] = Some current"
| "walk_ref current (part # parts) =
     (case current of
        PDict d \<Rightarrow> (case map_of d part of Some v \<Rightarrow> walk_ref v parts | None \<Rightarrow> None)
      | _ \<Rightarrow> None)"

definition resolve_ref :: "swagger_client \<Rightarrow> string \<Rightarrow> pyval option" where
  "resolve_ref self ref =
     (if \<not> startswith ref ''#/'' then None
      else walk_ref (document (spec self)) (split_py (drop 2 ref) CHR ''/''))"

text \<open>The loop of \<open>_build_request_body\<close> over the properties of a form schema.\<close>

fun build_form :: "(string \<times> pyval) list \<Rightarrow> pydict \<Rightarrow> pydict \<Rightarrow> pydict" where
  "build_form [] params form_data = form_data"
| "build_form ((param_name, param_schema) # rest) params form_data =
     (let python_name = replace_py param_name ''-'' ''_''
      in case map_of params python_name of
           Some v \<Rightarrow>
             (if v \<noteq> PNone \<and> v \<noteq> PBool False
              then build_form rest params (dict_set form_data param_name v)
              else build_form rest params form_data)
         | None \<Rightarrow>
             (case map_of params param_name of
                Some v \<Rightarrow>
                  (if v \<noteq> PNone \<and> v \<noteq> PBool False
                   then build_form rest params (dict_set form_data param_name v)
                   else build_form rest params form_data)
              | None \<Rightarrow> build_form rest params form_data))"

definition FORM :: string where
  "FORM = ''application/x-www-form-urlencoded''"

definition JSON :: string where
  "JSON = ''application/json''"

text \<open>
  The schema of a form body, after \<open>$ref\<close> resolution (\<open>_resolve_ref(...) or {}\<close>).
  A reference that is not a string has no \<open>startswith\<close>.
\<close>

definition form_schema :: "swagger_client \<Rightarrow> media_type \<Rightarrow> pyval result" where
  "form_schema self mt =
     (let schema = (case mt_schema mt of Some s \<Rightarrow> s | None \<Rightarrow> [])
      in case map_of schema ''$ref'' of
           None \<Rightarrow> Return (PDict schema)
         | Some (PStr ref) \<Rightarrow>
             (case resolve_ref self ref of
                None \<Rightarrow> Return (PDict [])
              | Some v \<Rightarrow> Return (if truthy v then v else PDict []))
         | Some _ \<Rightarrow> Raise (OtherError ''AttributeError''))"

text \<open>\<open>schema.get('properties', {}).items()\<close>: both receivers have to be dictionaries.\<close>

definition schema_properties :: "pyval \<Rightarrow> (string \<times> pyval) list result" where
  "schema_properties schema =
     (case schema of
        PDict d \<Rightarrow>
          (case map_of d ''properties'' of
             None \<Rightarrow> Return []
           | Some (PDict props) \<Rightarrow> Return props
           | Some _ \<Rightarrow> Raise (OtherError ''AttributeError''))
      | _ \<Rightarrow> Raise (OtherError ''AttributeError''))"

text \<open>
  \<open>_build_request_body\<close>.  A request body without \<open>content\<close> leaves through the last
  \<open>return\<close>, with the same value as the first one.
\<close>

definition build_request_body ::
  "env \<Rightarrow> swagger_client \<Rightarrow> operation_info \<Rightarrow> pydict \<Rightarrow> (string option \<times> string) result" where
  "build_request_body ev self operation_info params =
     (case oi_request_body operation_info of
        None \<Rightarrow> Return (None, JSON)
      | Some request_body \<Rightarrow>
          (let content = rb_content request_body
           in case map_of content FORM of
                Some mt \<Rightarrow>
                  (case form_schema self mt of
                     Raise e \<Rightarrow> Raise e
                   | Return schema \<Rightarrow>
                       (case schema_properties schema of
                          Raise e \<Rightarrow> Raise e
                        | Return properties \<Rightarrow>
                            Return (Some (urlencode ev (build_form properties params [])), FORM)))
              | None \<Rightarrow>
                  (if map_of content JSON \<noteq> None
                   then Return (Some (json_dumps ev (PDict params)), JSON)
                   else Return (None, JSON))))"

record request =
  rq_method :: string
  rq_url :: string
  rq_headers :: pydict
  rq_body :: "string option"
  rq_content_type :: string

text \<open>
  Lines 405 to 451 of \<open>call_operation\<close>: everything between the lookup of the operation
  and the retry loop.
\<close>

definition build_request ::
  "env \<Rightarrow> swagger_client \<Rightarrow> operation_info \<Rightarrow> pydict \<Rightarrow> request result" where
  "build_request ev self operation_info params =
     (let path = oi_path operation_info;
          method = oi_method operation_info;
          path = substitute_path ev (oi_parameters operation_info) params path;
          url = rstrip_py (base_url self) CHR ''/'' @ path;
          query_params = build_query (oi_parameters operation_info) params (auth_params self);
          url = (if query_params \<noteq> [] then url @ ''?'' @ urlencode ev query_params else url)
      in case build_request_body ev self operation_info params of
           Raise e \<Rightarrow> Raise e
         | Return (body, content_type) \<Rightarrow>
             (let body =
                    (if content_type = FORM \<and> auth_params self \<noteq> [] then
                       (let auth_encoded = urlencode ev (auth_params self)
                        in case body of
                             Some b \<Rightarrow>
                               (if b \<noteq> [] then Some (auth_encoded @ ''&'' @ b)
                                else Some auth_encoded)
                           | None \<Rightarrow> Some auth_encoded)
                     else body);
                  headers = dict_set (auth_headers self) ''Accept'' (PStr ''application/json'')
              in Return \<lparr>rq_method = method, rq_url = url, rq_headers = headers,
                         rq_body = body, rq_content_type = content_type\<rparr>))"

section \<open>The transport\<close>

record response =
  status_code :: int
  r_body :: string
  r_headers :: "(string \<times> string) list"

text \<open>
  What both transport functions put on the wire: a copy of the headers, with the content
  type when there is a body to send.
\<close>

definition wire_of :: "request \<Rightarrow> wire" where
  "wire_of rq =
     (let body_given = (case rq_body rq of Some b \<Rightarrow> b \<noteq> [] | None \<Rightarrow> False);
          headers = (if body_given \<and> rq_content_type rq \<noteq> []
                     then dict_set (rq_headers rq) ''Content-Type'' (PStr (rq_content_type rq))
                     else rq_headers rq)
      in \<lparr>w_method = rq_method rq, w_url = rq_url rq, w_headers = headers,
          w_data = rq_body rq\<rparr>)"

text \<open>The \<open>try\<close> statements of the two transport functions, applied to what the library did.\<close>

definition requests_result :: "lib_outcome \<Rightarrow> response result" where
  "requests_result outcome =
     (case outcome of
        Delivered st text hs \<Rightarrow> Return \<lparr>status_code = st, r_body = text, r_headers = hs\<rparr>
      | Timeout \<Rightarrow> Raise (SwaggerClientError ''Request timed out'')
      | SSLError e \<Rightarrow> Raise (SwaggerClientError (''SSL error: '' @ e))
      | ConnectionError e \<Rightarrow> Raise (SwaggerClientError (''Connection error: '' @ e))
      | RequestException e \<Rightarrow> Raise (SwaggerClientError (''Request failed: '' @ e))
      | HTTPError code fp hs \<Rightarrow> Raise (OtherError ''HTTPError'')
      | URLError reason \<Rightarrow> Raise (OtherError ''URLError'')
      | Crash e \<Rightarrow> Raise (OtherError e))"

definition urllib_result :: "lib_outcome \<Rightarrow> response result" where
  "urllib_result outcome =
     (case outcome of
        Delivered st text hs \<Rightarrow> Return \<lparr>status_code = st, r_body = text, r_headers = hs\<rparr>
      | HTTPError code fp hs \<Rightarrow>
          Return \<lparr>status_code = code,
                  r_body = (case fp of Some b \<Rightarrow> b | None \<Rightarrow> []),
                  r_headers = (case hs of Some h \<Rightarrow> h | None \<Rightarrow> [])\<rparr>
      | URLError reason \<Rightarrow>
          (if contains ''timed out'' (lower reason)
           then Raise (SwaggerClientError ''Request timed out'')
           else Raise (SwaggerClientError (''Request failed: '' @ reason)))
      | Timeout \<Rightarrow> Raise (OtherError ''Timeout'')
      | SSLError e \<Rightarrow> Raise (OtherError e)
      | ConnectionError e \<Rightarrow> Raise (OtherError e)
      | RequestException e \<Rightarrow> Raise (OtherError e)
      | Crash e \<Rightarrow> Raise (OtherError e))"

definition make_request_with_requests :: "env \<Rightarrow> nat \<Rightarrow> request \<Rightarrow> response result" where
  "make_request_with_requests ev k rq = requests_result (network ev k (wire_of rq))"

definition make_request_with_urllib :: "env \<Rightarrow> nat \<Rightarrow> request \<Rightarrow> response result" where
  "make_request_with_urllib ev k rq = urllib_result (network ev k (wire_of rq))"

definition make_request :: "env \<Rightarrow> nat \<Rightarrow> request \<Rightarrow> response result" where
  "make_request ev k rq =
     (if HAS_REQUESTS ev then make_request_with_requests ev k rq
      else make_request_with_urllib ev k rq)"

section \<open>The call orchestrator\<close>

definition response_dict :: "response \<Rightarrow> pyval" where
  "response_dict r =
     PDict [(''status_code'', PInt (status_code r)),
            (''body'', PStr (r_body r)),
            (''headers'', PDict (map (\<lambda>(h, v). (h, PStr v)) (r_headers r)))]"

definition decode_body :: "env \<Rightarrow> string \<Rightarrow> pyval" where
  "decode_body ev body =
     (case json_loads ev body of Some v \<Rightarrow> v | None \<Rightarrow> PDict [(''raw'', PStr body)])"

text \<open>
  The retry loop, \<open>for attempt in range(self.max_retries)\<close>, over the attempts still to
  make; \<open>k\<close> counts the requests sent so far.  It returns the outcome and the events in
  the order they happened.  The statement after the loop is reached only when the range is
  empty.
\<close>

fun retry_loop ::
  "env \<Rightarrow> swagger_client \<Rightarrow> request \<Rightarrow> bool \<Rightarrow> nat list \<Rightarrow> exn option \<Rightarrow> nat
     \<Rightarrow> pyval result \<times> event list" where
  "retry_loop ev self rq raw_response [] last_error k =
     (case last_error of Some e \<Rightarrow> (Raise e, []) | None \<Rightarrow> (Return PNone, []))"
| "retry_loop ev self rq raw_response (attempt # rest) last_error k =
     (case make_request ev k rq of
        Return resp \<Rightarrow>
          (if raw_response then (Return (response_dict resp), [Sent (wire_of rq)])
           else (Return (decode_body ev (r_body resp)), [Sent (wire_of rq)]))
      | Raise (SwaggerClientError m) \<Rightarrow>
          (if int attempt < max_retries self - 1 then
             (case retry_loop ev self rq raw_response rest (Some (SwaggerClientError m)) (Suc k) of
                (r, evs) \<Rightarrow>
                  (r, Sent (wire_of rq) # Slept (retry_delay self * 2 ^ attempt) # evs))
           else (Raise (SwaggerClientError m), [Sent (wire_of rq)]))
      | Raise e \<Rightarrow> (Raise e, [Sent (wire_of rq)]))"

text \<open>\<open>params or {}\<close>: an empty dictionary is falsy, and replaced by a new empty one.\<close>

definition or_empty :: "pydict option \<Rightarrow> pydict" where
  "or_empty params = (case params of Some d \<Rightarrow> (if d \<noteq> [] then d else []) | None \<Rightarrow> [])"

text \<open>
  \<open>call_operation\<close>; \<open>params\<close> is \<open>None\<close> when the caller leaves the argument out, and
  \<open>k\<close> is the number of requests sent before the call.
\<close>

definition call_operation ::
  "env \<Rightarrow> swagger_client \<Rightarrow> nat \<Rightarrow> string \<Rightarrow> pydict option \<Rightarrow> bool
     \<Rightarrow> pyval result \<times> event list" where
  "call_operation ev self k operation_id params raw_response =
     (let params = or_empty params
      in case get_operation self operation_id of
           Raise e \<Rightarrow> (Raise e, [])
         | Return operation_info \<Rightarrow>
             (case build_request ev self operation_info params of
                Raise e \<Rightarrow> (Raise e, [])
              | Return rq \<Rightarrow>
                  retry_loop ev self rq raw_response [0 ..< nat (max_retries self)] None k))"

fun is_sent :: "event \<Rightarrow> bool" where
  "is_sent (Sent w) = True"
| "is_sent (Slept d) = False"

section \<open>The resolution rule, and an environment for the examples\<close>

text \<open>
  The rule the three loops of the request builder apply to a declared name: the caller's
  map is asked for the name with hyphens turned into underscores, and for the name itself
  only when that key is absent.
\<close>

definition lookup_param :: "pydict \<Rightarrow> string \<Rightarrow> pyval option" where
  "lookup_param params param_name =
     (case map_of params (replace_py param_name ''-'' ''_'') of
        Some v \<Rightarrow> Some v
      | None \<Rightarrow> map_of params param_name)"

text \<open>
  An instance of the library functions for the examples.  It agrees with Python on the
  values the examples apply it to: \<open>str\<close> of a string, of \<open>None\<close> and of a truth value,
  \<open>urlencode\<close> and \<open>json.dumps\<close> of dictionaries of plain words, \<open>json.loads\<close> of the
  texts \<open>[]\<close>, \<open>{}\<close> and \<open>oops\<close>.
\<close>

definition example_str :: "pyval \<Rightarrow> string" where
  "example_str v =
     (case v of
        PStr s \<Rightarrow> s
      | PNone \<Rightarrow> ''None''
      | PBool b \<Rightarrow> (if b then ''True'' else ''False'')
      | _ \<Rightarrow> [])"

definition example_urlencode :: "pydict \<Rightarrow> string" where
  "example_urlencode d = join ''&'' (map (\<lambda>(k, v). k @ ''='' @ example_str v) d)"

definition example_dumps :: "pyval \<Rightarrow> string" where
  "example_dumps v =
     (case v of
        PDict d \<Rightarrow>
          ''{'' @ join '', '' (map (\<lambda>(k, x). [CHR 0x22] @ k @ [CHR 0x22] @ '': ''
                                    @ [CHR 0x22] @ example_str x @ [CHR 0x22]) d) @ ''}''
      | _ \<Rightarrow> [])"

definition example_loads :: "string \<Rightarrow> pyval option" where
  "example_loads s =
     (if s = ''[]'' then Some (PList []) else if s = ''{}'' then Some (PDict []) else None)"

definition example_env :: "bool \<Rightarrow> (nat \<Rightarrow> wire \<Rightarrow> lib_outcome) \<Rightarrow> env" where
  "example_env has_requests net =
     \<lparr>py_str = example_str, urlencode = example_urlencode, json_dumps = example_dumps,
      json_loads = example_loads, HAS_REQUESTS = has_requests, network = net\<rparr>"

text \<open>A document with one operation, \<open>create-project\<close>, whose body is JSON.\<close>

definition create_project_spec :: "pyval \<Rightarrow> openapi" where
  "create_project_spec doc =
     \<lparr>paths =
        [(''/projects'',
          \<lparr>pi_operations =
             [(''post'',
               \<lparr>operationId = Some ''create-project'',
                o_parameters = None,
                requestBody = Some \<lparr>rb_content = [(JSON, \<lparr>mt_schema = None\<rparr>)]\<rparr>\<rparr>)],
           pi_parameters = None\<rparr>)],
      document = doc\<rparr>"

definition coolify_headers :: pydict where
  "coolify_headers = [(''Authorization'', PStr ''Bearer token'')]"

text \<open>The Coolify facade's client for that document, and a call of its one operation.\<close>

definition example_client :: swagger_client where
  "example_client =
     SwaggerClient (create_project_spec PNone) ''http://coolify/api/v1/'' [] coolify_headers 3 1"

definition example_params :: pydict where
  "example_params = [(''name'', PStr ''my-app''), (''description'', PStr ''demo'')]"

definition create_project_info :: operation_info where
  "create_project_info =
     \<lparr>oi_path = ''/projects'', oi_method = ''POST'',
      oi_operation =
        \<lparr>operationId = Some ''create-project'', o_parameters = None,
         requestBody = Some \<lparr>rb_content = [(JSON, \<lparr>mt_schema = None\<rparr>)]\<rparr>\<rparr>,
      oi_parameters = [],
      oi_request_body = Some \<lparr>rb_content = [(JSON, \<lparr>mt_schema = None\<rparr>)]\<rparr>\<rparr>"

definition example_request :: "env \<Rightarrow> request" where
  "example_request ev =
     \<lparr>rq_method = ''POST'', rq_url = ''http://coolify/api/v1/projects'',
      rq_headers = [(''Authorization'', PStr ''Bearer token''),
                    (''Accept'', PStr ''application/json'')],
      rq_body = Some (json_dumps ev (PDict example_params)), rq_content_type = JSON\<rparr>"

text \<open>Three networks: two timeouts and then an empty list; never reachable; always a 500.\<close>

definition flaky_network :: "nat \<Rightarrow> wire \<Rightarrow> lib_outcome" where
  "flaky_network k w = (if k < 2 then Timeout else Delivered 200 ''[]'' [])"

definition dead_network :: "nat \<Rightarrow> wire \<Rightarrow> lib_outcome" where
  "dead_network k w = URLError ''refused''"







section \<open>The Coolify facade\<close>

















text \<open>\<open>if existing:\<close> on the outcome of a search.\<close>

definition found :: "pyval option \<Rightarrow> bool" where
  "found existing = (case existing of Some x \<Rightarrow> truthy x | None \<Rightarrow> False)"









section \<open>Dictionaries as objects: the store\<close>

text \<open>
  Whether \<open>call_operation\<close> changes a dictionary of its caller depends on which
  dictionary each assignment writes to.  Here the dictionaries live in a store, a
  variable holds the address of one, \<open>{}\<close>, \<open>dict(d)\<close> and \<open>d.copy()\<close> allocate a new
  one, and \<open>d[k] = v\<close> writes to the store.  The values inside a dictionary are never
  written to by the client and stay plain values.
\<close>

type_synonym store = "pydict list"

definition alloc :: "store \<Rightarrow> pydict \<Rightarrow> nat \<times> store" where
  "alloc h d = (length h, h @ [d])"

definition store_set :: "store \<Rightarrow> nat \<Rightarrow> string \<Rightarrow> pyval \<Rightarrow> store" where
  "store_set h a k v = h[a := dict_set (h ! a) k v]"

text \<open>
  The client as an object: its immutable fields, and the addresses of \<open>self.auth_params\<close>
  and \<open>self.auth_headers\<close>.
\<close>

record swagger_object =
  obj_fields :: swagger_client
  ref_auth_params :: nat
  ref_auth_headers :: nat

fun build_query_st :: "parameter list \<Rightarrow> nat \<Rightarrow> nat \<Rightarrow> store \<Rightarrow> store" where
  "build_query_st [] params query_params h = h"
| "build_query_st (param # rest) params query_params h =
     (if p_in param = Some ''query'' then
        (let param_name = p_name param;
             python_name = replace_py param_name ''-'' ''_''
         in case map_of (h ! params) python_name of
              Some v \<Rightarrow>
                (if v \<noteq> PNone
                 then build_query_st rest params query_params
                        (store_set h query_params param_name v)
                 else build_query_st rest params query_params h)
            | None \<Rightarrow>
                (case map_of (h ! params) param_name of
                   Some v \<Rightarrow>
                     (if v \<noteq> PNone
                      then build_query_st rest params query_params
                             (store_set h query_params param_name v)
                      else build_query_st rest params query_params h)
                 | None \<Rightarrow> build_query_st rest params query_params h))
      else build_query_st rest params query_params h)"

fun build_form_st :: "(string \<times> pyval) list \<Rightarrow> nat \<Rightarrow> nat \<Rightarrow> store \<Rightarrow> store" where
  "build_form_st [] params form_data h = h"
| "build_form_st ((param_name, param_schema) # rest) params form_data h =
     (let python_name = replace_py param_name ''-'' ''_''
      in case map_of (h ! params) python_name of
           Some v \<Rightarrow>
             (if v \<noteq> PNone \<and> v \<noteq> PBool False
              then build_form_st rest params form_data (store_set h form_data param_name v)
              else build_form_st rest params form_data h)
         | None \<Rightarrow>
             (case map_of (h ! params) param_name of
                Some v \<Rightarrow>
                  (if v \<noteq> PNone \<and> v \<noteq> PBool False
                   then build_form_st rest params form_data
                          (store_set h form_data param_name v)
                   else build_form_st rest params form_data h)
              | None \<Rightarrow> build_form_st rest params form_data h))"

definition build_request_body_st ::
  "env \<Rightarrow> swagger_object \<Rightarrow> operation_info \<Rightarrow> nat \<Rightarrow> store
     \<Rightarrow> (string option \<times> string) result \<times> store" where
  "build_request_body_st ev self operation_info params h =
     (case oi_request_body operation_info of
        None \<Rightarrow> (Return (None, JSON), h)
      | Some request_body \<Rightarrow>
          (let content = rb_content request_body
           in case map_of content FORM of
                Some mt \<Rightarrow>
                  (case form_schema (obj_fields self) mt of
                     Raise e \<Rightarrow> (Raise e, h)
                   | Return schema \<Rightarrow>
                       (case alloc h [] of
                          (form_data, h) \<Rightarrow>
                            (case schema_properties schema of
                               Raise e \<Rightarrow> (Raise e, h)
                             | Return properties \<Rightarrow>
                                 (let h = build_form_st properties params form_data h
                                  in (Return (Some (urlencode ev (h ! form_data)), FORM), h)))))
              | None \<Rightarrow>
                  (if map_of content JSON \<noteq> None
                   then (Return (Some (json_dumps ev (PDict (h ! params))), JSON), h)
                   else (Return (None, JSON), h))))"

text \<open>
  One call of \<open>_make_request\<close>: the headers are copied, the copy gets the content type,
  and the request goes out.
\<close>

definition make_request_st ::
  "env \<Rightarrow> nat \<Rightarrow> string \<Rightarrow> string \<Rightarrow> nat \<Rightarrow> string option \<Rightarrow> string \<Rightarrow> store
     \<Rightarrow> response result \<times> wire \<times> store" where
  "make_request_st ev k method url headers body content_type h =
     (case alloc h (h ! headers) of
        (headers, h) \<Rightarrow>
          (let body_given = (case body of Some b \<Rightarrow> b \<noteq> [] | None \<Rightarrow> False);
               h = (if body_given \<and> content_type \<noteq> []
                    then store_set h headers ''Content-Type'' (PStr content_type) else h);
               w = \<lparr>w_method = method, w_url = url, w_headers = h ! headers, w_data = body\<rparr>
           in ((if HAS_REQUESTS ev then requests_result (network ev k w)
                else urllib_result (network ev k w)), w, h)))"

fun retry_loop_st ::
  "env \<Rightarrow> swagger_object \<Rightarrow> string \<Rightarrow> string \<Rightarrow> nat \<Rightarrow> string option \<Rightarrow> string \<Rightarrow> bool
     \<Rightarrow> nat list \<Rightarrow> exn option \<Rightarrow> nat \<Rightarrow> store
     \<Rightarrow> (pyval result \<times> event list) \<times> store" where
  "retry_loop_st ev self method url headers body content_type raw_response [] last_error k h =
     (case last_error of Some e \<Rightarrow> ((Raise e, []), h) | None \<Rightarrow> ((Return PNone, []), h))"
| "retry_loop_st ev self method url headers body content_type raw_response (attempt # rest)
       last_error k h =
     (case make_request_st ev k method url headers body content_type h of
        (Return resp, w, h) \<Rightarrow>
          (if raw_response then ((Return (response_dict resp), [Sent w]), h)
           else ((Return (decode_body ev (r_body resp)), [Sent w]), h))
      | (Raise (SwaggerClientError m), w, h) \<Rightarrow>
          (if int attempt < max_retries (obj_fields self) - 1 then
             (case retry_loop_st ev self method url headers body content_type raw_response rest
                     (Some (SwaggerClientError m)) (Suc k) h of
                ((r, evs), h) \<Rightarrow>
                  ((r, Sent w # Slept (retry_delay (obj_fields self) * 2 ^ attempt) # evs), h))
           else ((Raise (SwaggerClientError m), [Sent w]), h))
      | (Raise e, w, h) \<Rightarrow> ((Raise e, [Sent w]), h))"

text \<open>
  \<open>call_operation\<close> on the store; \<open>params\<close> is the address of the caller's dictionary, or
  \<open>None\<close>.  It returns what the call returns, and the store the call leaves behind.
\<close>

definition call_operation_st ::
  "env \<Rightarrow> swagger_object \<Rightarrow> nat \<Rightarrow> string \<Rightarrow> nat option \<Rightarrow> bool \<Rightarrow> store
     \<Rightarrow> (pyval result \<times> event list) \<times> store" where
  "call_operation_st ev self k operation_id params raw_response h =
     (case (case params of
              Some p \<Rightarrow> (if h ! p \<noteq> [] then (p, h) else alloc h [])
            | None \<Rightarrow> alloc h []) of
        (params, h) \<Rightarrow>
          (case get_operation (obj_fields self) operation_id of
             Raise e \<Rightarrow> ((Raise e, []), h)
           | Return operation_info \<Rightarrow>
               (let path = oi_path operation_info;
                    method = oi_method operation_info;
                    path = substitute_path ev (oi_parameters operation_info) (h ! params) path;
                    url = rstrip_py (base_url (obj_fields self)) CHR ''/'' @ path
                in case alloc h (h ! ref_auth_params self) of
                     (query_params, h) \<Rightarrow>
                       (let h = build_query_st (oi_parameters operation_info) params
                                  query_params h;
                            url = (if h ! query_params \<noteq> []
                                   then url @ ''?'' @ urlencode ev (h ! query_params)
                                   else url)
                        in case build_request_body_st ev self operation_info params h of
                             (Raise e, h) \<Rightarrow> ((Raise e, []), h)
                           | (Return (body, content_type), h) \<Rightarrow>
                               (let body =
                                      (if content_type = FORM \<and> h ! ref_auth_params self \<noteq> []
                                       then
                                         (let auth_encoded =
                                                urlencode ev (h ! ref_auth_params self)
                                          in case body of
                                               Some b \<Rightarrow>
                                                 (if b \<noteq> []
                                                  then Some (auth_encoded @ ''&'' @ b)
                                                  else Some auth_encoded)
                                             | None \<Rightarrow> Some auth_encoded)
                                       else body)
                                in case alloc h (h ! ref_auth_headers self) of
                                     (headers, h) \<Rightarrow>
                                       (let h = store_set h headers ''Accept''
                                                  (PStr ''application/json'')
                                        in retry_loop_st ev self method url headers body
                                             content_type raw_response
                                             [0 ..< nat (max_retries (obj_fields self))]
                                             None k h))))))"

text \<open>
  The second store has every object of the first one, and the first \<open>n\<close> objects are
  what they were.
\<close>

definition preserves :: "nat \<Rightarrow> store \<Rightarrow> store \<Rightarrow> bool" where
  "preserves n h h' = (length h \<le> length h' \<and> take n h' = take n h)"

section \<open>Properties of the client\<close>

subsection \<open>Auxiliary facts\<close>

lemma create_project_lookup:
  "get_operation (SwaggerClient (create_project_spec doc) base aparams hdrs retries delay)
     ''create-project'' = Return create_project_info"
  by (simp add: get_operation_def SwaggerClient_def build_operation_map_def
      create_project_spec_def HTTP_METHODS_def upper_def upper_char_def
      get_operation_parameters_def create_project_info_def JSON_def)

lemma example_client_lookup:
  "get_operation example_client ''create-project'' = Return create_project_info"
  unfolding example_client_def by (rule create_project_lookup)

lemma example_client_request:
  "build_request (example_env hr net) example_client create_project_info
     (or_empty (Some example_params)) = Return (example_request (example_env hr net))"
  by (simp add: build_request_def build_request_body_def example_client_def SwaggerClient_def
      create_project_info_def example_request_def example_params_def or_empty_def
      coolify_headers_def rstrip_py_def JSON_def FORM_def example_env_def)

lemma retry_all_fail:
  assumes "\<And>i. a \<le> i \<Longrightarrow> i < n \<Longrightarrow>
             make_request ev (k + (i - a)) rq = Raise (SwaggerClientError (msg i))"
    and "a < n" and "max_retries self = int n"
  shows "retry_loop ev self rq raw [a ..< n] le k =
     (Raise (SwaggerClientError (msg (n - 1))),
      concat (map (\<lambda>i. [Sent (wire_of rq), Slept (retry_delay self * 2 ^ i)]) [a ..< n - 1])
        @ [Sent (wire_of rq)])"
  using assms
proof (induction "n - a" arbitrary: a k le)
  case 0
  then show ?case by simp
next
  case (Suc d)
  have first: "make_request ev k rq = Raise (SwaggerClientError (msg a))"
    using Suc.prems(1)[of a] Suc.prems(2) by simp
  show ?case
  proof (cases "Suc a = n")
    case True
    then have "[a ..< n] = [a]" "[a ..< n - 1] = []" by auto
    with first True Suc.prems(3) show ?thesis by auto
  next
    case False
    with Suc.prems(2) have lt: "Suc a < n" by simp
    have d: "d = n - Suc a" using Suc.hyps(2) by simp
    have rest: "\<And>i. Suc a \<le> i \<Longrightarrow> i < n \<Longrightarrow>
        make_request ev (Suc k + (i - Suc a)) rq = Raise (SwaggerClientError (msg i))"
    proof -
      fix i assume "Suc a \<le> i" "i < n"
      then have "make_request ev (k + (i - a)) rq = Raise (SwaggerClientError (msg i))"
        using Suc.prems(1)[of i] by simp
      moreover have "k + (i - a) = Suc k + (i - Suc a)" using \<open>Suc a \<le> i\<close> by simp
      ultimately show "make_request ev (Suc k + (i - Suc a)) rq
          = Raise (SwaggerClientError (msg i))"
        by simp
    qed
    have ih: "retry_loop ev self rq raw [Suc a ..< n] (Some (SwaggerClientError (msg a))) (Suc k) =
       (Raise (SwaggerClientError (msg (n - 1))),
        concat (map (\<lambda>i. [Sent (wire_of rq), Slept (retry_delay self * 2 ^ i)])
                  [Suc a ..< n - 1])
          @ [Sent (wire_of rq)])"
      using Suc.hyps(1)[OF d rest lt Suc.prems(3)] by simp
    have l1: "[a ..< n] = a # [Suc a ..< n]" using Suc.prems(2) by (simp add: upt_conv_Cons)
    have l2: "[a ..< n - 1] = a # [Suc a ..< n - 1]" using lt by (simp add: upt_conv_Cons)
    have cond: "int a < max_retries self - 1" using lt Suc.prems(3) by simp
    show ?thesis
      unfolding l1 l2 using first ih cond by simp
  qed
qed

lemma retry_sent_bound:
  "length (filter is_sent (snd (retry_loop ev self rq raw atts le k))) \<le> length atts"
proof (induction atts arbitrary: le k)
  case Nil
  then show ?case by (simp split: option.splits)
next
  case (Cons a atts)
  show ?case
  proof (cases "make_request ev k rq")
    case (Return resp)
    then show ?thesis by simp
  next
    case (Raise e)
    show ?thesis
    proof (cases e)
      case (SwaggerClientError m)
      show ?thesis
      proof (cases "int a < max_retries self - 1")
        case True
        obtain r evs where
          re: "retry_loop ev self rq raw atts (Some (SwaggerClientError m)) (Suc k) = (r, evs)"
          by (cases "retry_loop ev self rq raw atts (Some (SwaggerClientError m)) (Suc k)")
        have "length (filter is_sent evs) \<le> length atts"
          using Cons.IH[of "Some (SwaggerClientError m)" "Suc k"] re by simp
        with Raise SwaggerClientError True re show ?thesis by simp
      next
        case False
        with Raise SwaggerClientError show ?thesis by simp
      qed
    next
      case (CoolifyError m r)
      with Raise show ?thesis by simp
    next
      case (OtherError m)
      with Raise show ?thesis by simp
    qed
  qed
qed

lemma call_sent_bound:
  "length (filter is_sent (snd (call_operation ev self k oid params raw)))
     \<le> nat (max_retries self)"
proof -
  have "length (filter is_sent
          (snd (retry_loop ev self rq raw [0 ..< nat (max_retries self)] None k)))
        \<le> nat (max_retries self)" for rq
    using retry_sent_bound[of ev self rq raw "[0 ..< nat (max_retries self)]" None k] by simp
  then show ?thesis
    by (simp add: call_operation_def split: result.splits)
qed

subsection \<open>Unknown operations\<close>

text \<open>
  C4.  When the operation identifier is not a key of the operation index,
  \<open>call_operation\<close> raises the operation-not-found error and nothing has happened on the
  network (no request, no waiting); the message lists the first ten keys of the index at
  most.
\<close>

theorem unknown_operation_fails_before_network:
  assumes "operation_id \<notin> fst ` set (operations self)"
  shows "call_operation ev self k operation_id params raw_response =
           (Raise (SwaggerClientError
              (''Operation '' @ [CHR 0x27] @ operation_id @ [CHR 0x27] @ '' not found. ''
               @ ''Available operations: ''
               @ join '', '' (take 10 (map fst (operations self))) @ ''...'')), [])
         \<and> length (take 10 (map fst (operations self))) \<le> 10"
proof -
  from assms have "map_of (operations self) operation_id = None"
    by (simp add: map_of_eq_None_iff)
  then show ?thesis by (simp add: call_operation_def get_operation_def)
qed

theorem unknown_operation_witness:
  "''nope'' \<notin> fst ` set (operations example_client)
   \<and> call_operation (example_env False dead_network) example_client 0 ''nope'' None False =
       (Raise (SwaggerClientError
          (''Operation '' @ [CHR 0x27] @ ''nope'' @ [CHR 0x27]
           @ '' not found. Available operations: create-project...'')), [])"
proof -
  have absent: "''nope'' \<notin> fst ` set (operations example_client)"
    by (simp add: example_client_def SwaggerClient_def build_operation_map_def
        create_project_spec_def HTTP_METHODS_def)
  have keys: "map fst (operations example_client) = [''create-project'']"
    by (simp add: example_client_def SwaggerClient_def build_operation_map_def
        create_project_spec_def HTTP_METHODS_def)
  show ?thesis
    using absent
      unknown_operation_fails_before_network
        [OF absent, of "example_env False dead_network" 0 None False]
    by (simp add: keys)
qed

subsection \<open>Responses and retries\<close>



lemma example_env_sel:
  "py_str (example_env hr net) = example_str"
  "urlencode (example_env hr net) = example_urlencode"
  "json_dumps (example_env hr net) = example_dumps"
  "json_loads (example_env hr net) = example_loads"
  "HAS_REQUESTS (example_env hr net) = hr"
  "network (example_env hr net) = net"
  by (simp_all add: example_env_def)

text \<open>
  C2.  Let the operation be known and its request be built.  With three attempts
  configured and a base delay of 1, a transport that fails the first two attempts and
  answers the third makes \<open>call_operation\<close> return the decoded result of the third
  attempt, after exactly three requests and waits of 1 and then 2.  With \<open>n > 0\<close>
  attempts configured, all of which fail in the transport, the failure of the last attempt
  is raised, after exactly \<open>n\<close> requests, the wait doubling from one attempt to the
  next.  No call sends more requests than \<open>max_retries\<close>.
\<close>

theorem retry_with_exponential_backoff:
  assumes "get_operation self operation_id = Return info"
    and "build_request ev self info (or_empty params) = Return rq"
  shows "(max_retries self = 3 \<and> retry_delay self = 1
          \<and> make_request ev k rq = Raise (SwaggerClientError m1)
          \<and> make_request ev (k + 1) rq = Raise (SwaggerClientError m2)
          \<and> make_request ev (k + 2) rq = Return resp \<longrightarrow>
            call_operation ev self k operation_id params raw_response =
              (Return (if raw_response then response_dict resp
                       else decode_body ev (r_body resp)),
               [Sent (wire_of rq), Slept 1, Sent (wire_of rq), Slept 2, Sent (wire_of rq)]))
       \<and> (0 < n \<and> max_retries self = int n
          \<and> (\<forall>i < n. make_request ev (k + i) rq = Raise (SwaggerClientError (msg i))) \<longrightarrow>
            call_operation ev self k operation_id params raw_response =
              (Raise (SwaggerClientError (msg (n - 1))),
               concat (map (\<lambda>i. [Sent (wire_of rq), Slept (retry_delay self * 2 ^ i)])
                         [0 ..< n - 1])
                 @ [Sent (wire_of rq)]))
       \<and> length (filter is_sent
            (snd (call_operation ev self k operation_id params raw_response)))
           \<le> nat (max_retries self)"
proof (intro conjI impI)
  assume "max_retries self = 3 \<and> retry_delay self = 1
          \<and> make_request ev k rq = Raise (SwaggerClientError m1)
          \<and> make_request ev (k + 1) rq = Raise (SwaggerClientError m2)
          \<and> make_request ev (k + 2) rq = Return resp"
  with assms show "call_operation ev self k operation_id params raw_response =
              (Return (if raw_response then response_dict resp
                       else decode_body ev (r_body resp)),
               [Sent (wire_of rq), Slept 1, Sent (wire_of rq), Slept 2, Sent (wire_of rq)])"
    by (simp add: call_operation_def upt_rec)
next
  assume h: "0 < n \<and> max_retries self = int n
          \<and> (\<forall>i < n. make_request ev (k + i) rq = Raise (SwaggerClientError (msg i)))"
  then have fails: "\<And>i. 0 \<le> i \<Longrightarrow> i < n \<Longrightarrow>
      make_request ev (k + (i - 0)) rq = Raise (SwaggerClientError (msg i))"
    by simp
  have "retry_loop ev self rq raw_response [0 ..< n] None k =
     (Raise (SwaggerClientError (msg (n - 1))),
      concat (map (\<lambda>i. [Sent (wire_of rq), Slept (retry_delay self * 2 ^ i)]) [0 ..< n - 1])
        @ [Sent (wire_of rq)])"
    using retry_all_fail[of 0 n ev k rq msg self raw_response None, OF fails] h by simp
  with assms h show "call_operation ev self k operation_id params raw_response =
              (Raise (SwaggerClientError (msg (n - 1))),
               concat (map (\<lambda>i. [Sent (wire_of rq), Slept (retry_delay self * 2 ^ i)])
                         [0 ..< n - 1])
                 @ [Sent (wire_of rq)])"
    by (simp add: call_operation_def)
next
  show "length (filter is_sent
            (snd (call_operation ev self k operation_id params raw_response)))
           \<le> nat (max_retries self)"
    by (rule call_sent_bound)
qed

lemma flaky_requests:
  "make_request (example_env True flaky_network) k rq =
     (if k < 2 then Raise (SwaggerClientError ''Request timed out'')
      else Return \<lparr>status_code = 200, r_body = ''[]'', r_headers = []\<rparr>)"
  by (simp add: make_request_def make_request_with_requests_def requests_result_def example_env_def
      flaky_network_def)

lemma dead_requests:
  "make_request (example_env False dead_network) k rq =
     Raise (SwaggerClientError ''Request failed: refused'')"
  by (simp add: make_request_def make_request_with_urllib_def urllib_result_def example_env_def
      dead_network_def lower_def lower_char_def)

theorem retry_witness:
  "call_operation (example_env True flaky_network) example_client 0 ''create-project''
     (Some example_params) False =
     (Return (PList []),
      [Sent (wire_of (example_request (example_env True flaky_network))), Slept 1,
       Sent (wire_of (example_request (example_env True flaky_network))), Slept 2,
       Sent (wire_of (example_request (example_env True flaky_network)))])
   \<and> call_operation (example_env False dead_network) example_client 0 ''create-project''
       (Some example_params) False =
     (Raise (SwaggerClientError ''Request failed: refused''),
      [Sent (wire_of (example_request (example_env False dead_network))), Slept 1,
       Sent (wire_of (example_request (example_env False dead_network))), Slept 2,
       Sent (wire_of (example_request (example_env False dead_network)))])"
proof -
  have cfg: "max_retries example_client = 3" "retry_delay example_client = 1"
    by (simp_all add: example_client_def SwaggerClient_def)
  have l: "[0 ..< 2] = [0, Suc 0]" by (simp add: upt_rec)
  from retry_with_exponential_backoff
         [OF example_client_lookup example_client_request,
          where k = 0 and raw_response = False and hr1 = True and net1 = flaky_network
            and ?m1.0 = "''Request timed out''" and ?m2.0 = "''Request timed out''"
            and resp = "\<lparr>status_code = 200, r_body = ''[]'', r_headers = []\<rparr>",
          THEN conjunct1]
  have first: "call_operation (example_env True flaky_network) example_client 0
      ''create-project'' (Some example_params) False =
     (Return (PList []),
      [Sent (wire_of (example_request (example_env True flaky_network))), Slept 1,
       Sent (wire_of (example_request (example_env True flaky_network))), Slept 2,
       Sent (wire_of (example_request (example_env True flaky_network)))])"
    by (simp add: cfg flaky_requests decode_body_def example_env_sel example_loads_def)
  from retry_with_exponential_backoff
         [OF example_client_lookup example_client_request,
          where k = 0 and raw_response = False and hr1 = False and net1 = dead_network
            and n = 3 and msg = "\<lambda>i. ''Request failed: refused''",
          THEN conjunct2, THEN conjunct1]
  have second: "call_operation (example_env False dead_network) example_client 0
      ''create-project'' (Some example_params) False =
     (Raise (SwaggerClientError ''Request failed: refused''),
      [Sent (wire_of (example_request (example_env False dead_network))), Slept 1,
       Sent (wire_of (example_request (example_env False dead_network))), Slept 2,
       Sent (wire_of (example_request (example_env False dead_network)))])"
    by (simp add: cfg dead_requests l)
  from first second show ?thesis by simp
qed

subsection \<open>The request body\<close>



subsection \<open>The operation index\<close>










subsection \<open>Parameter names\<close>

lemma hyphen_to_underscore:
  "replace_py ''project-uuid'' ''-'' ''_'' = ''project_uuid''"
  "replace_py ''project_uuid'' ''-'' ''_'' = ''project_uuid''"
  by (simp_all add: replace_py_def)

text \<open>
  C1, as amended.  Each of the three loops of the request builder resolves a declared
  parameter through one rule: the caller's map is asked for the declared name with its
  hyphens replaced by underscores first, and for the declared name itself when that key is
  absent.  So \<open>project_uuid\<close> resolves a declared \<open>project-uuid\<close>, as \<open>project-uuid\<close>
  does, the underscore key winning when both are given; a declared \<open>project_uuid\<close> is
  resolved by \<open>project_uuid\<close> only.
\<close>

theorem parameters_resolve_by_underscore_name_first:
  "substitute_path ev ps params path =
     foldl (\<lambda>path param.
              if p_in param = Some ''path'' then
                (case lookup_param params (p_name param) of
                   Some v \<Rightarrow> replace_py path (''{'' @ p_name param @ ''}'') (py_str ev v)
                 | None \<Rightarrow> path)
              else path) path ps
   \<and> build_query ps params query_params =
     foldl (\<lambda>query_params param.
              if p_in param = Some ''query'' then
                (case lookup_param params (p_name param) of
                   Some v \<Rightarrow>
                     if v \<noteq> PNone then dict_set query_params (p_name param) v
                     else query_params
                 | None \<Rightarrow> query_params)
              else query_params) query_params ps
   \<and> build_form props params form_data =
     foldl (\<lambda>form_data (param_name, param_schema).
              case lookup_param params param_name of
                Some v \<Rightarrow>
                  if v \<noteq> PNone \<and> v \<noteq> PBool False then dict_set form_data param_name v
                  else form_data
              | None \<Rightarrow> form_data) form_data props
   \<and> lookup_param [(''project_uuid'', v)] ''project-uuid'' = Some v
   \<and> lookup_param [(''project-uuid'', v)] ''project-uuid'' = Some v
   \<and> lookup_param [(''project-uuid'', v), (''project_uuid'', v')] ''project-uuid'' = Some v'
   \<and> lookup_param [(''project_uuid'', v)] ''project_uuid'' = Some v
   \<and> lookup_param [(''project-uuid'', v)] ''project_uuid'' = None"
proof (intro conjI)
  show "substitute_path ev ps params path =
     foldl (\<lambda>path param.
              if p_in param = Some ''path'' then
                (case lookup_param params (p_name param) of
                   Some v \<Rightarrow> replace_py path (''{'' @ p_name param @ ''}'') (py_str ev v)
                 | None \<Rightarrow> path)
              else path) path ps"
    by (induction ps arbitrary: path)
       (simp_all add: lookup_param_def Let_def split: option.splits)
  show "build_query ps params query_params =
     foldl (\<lambda>query_params param.
              if p_in param = Some ''query'' then
                (case lookup_param params (p_name param) of
                   Some v \<Rightarrow>
                     if v \<noteq> PNone then dict_set query_params (p_name param) v
                     else query_params
                 | None \<Rightarrow> query_params)
              else query_params) query_params ps"
    by (induction ps arbitrary: query_params)
       (simp_all add: lookup_param_def Let_def split: option.splits)
  show "build_form props params form_data =
     foldl (\<lambda>form_data (param_name, param_schema).
              case lookup_param params param_name of
                Some v \<Rightarrow>
                  if v \<noteq> PNone \<and> v \<noteq> PBool False then dict_set form_data param_name v
                  else form_data
              | None \<Rightarrow> form_data) form_data props"
    by (induction props arbitrary: form_data)
       (auto simp: lookup_param_def Let_def split: option.splits)
qed (simp_all add: lookup_param_def hyphen_to_underscore)

theorem hyphen_key_counterexample:
  "substitute_path (example_env True flaky_network)
     [\<lparr>p_name = ''project_uuid'', p_in = Some ''path''\<rparr>]
     [(''project-uuid'', PStr ''p1'')] ''/projects/{project_uuid}''
     = ''/projects/{project_uuid}''
   \<and> build_query [\<lparr>p_name = ''project_uuid'', p_in = Some ''query''\<rparr>]
       [(''project-uuid'', PStr ''p1'')] [] = []
   \<and> build_form [(''project_uuid'', PDict [])] [(''project-uuid'', PStr ''p1'')] [] = []
   \<and> substitute_path (example_env True flaky_network)
       [\<lparr>p_name = ''project-uuid'', p_in = Some ''path''\<rparr>]
       [(''project-uuid'', PStr ''original''), (''project_uuid'', PStr ''converted'')]
       ''/projects/{project-uuid}''
     = ''/projects/converted''"
  by (simp add: hyphen_to_underscore example_env_sel example_str_def replace_py_def)

subsection \<open>The facade helpers\<close>










end
